theory Spec2Isabelle
  imports Main "HOL-Library.Word"
begin

unbundle bit_operations_syntax

section \<open>The JIT control plane of JitBase.cpp\<close>

text \<open>
  The embedding follows \<^verbatim>\<open>Source/Core/Core/PowerPC/JitCommon/JitBase.cpp\<close>
  (\<^verbatim>\<open>src/unnamed/part_001\<close>). The member functions of \<^verbatim>\<open>JitBase\<close> become
  functions on a record of the object's fields. What the member functions read from
  the rest of the emulator (the configuration store, the system queries, the guest's
  MSR, the breakpoint and memcheck registries, the host's stack and page size) is a
  second record, \<open>env\<close>, passed to each call. What they do to the rest of the emulator
  (alerts, log lines, page protection, cache invalidation, the exception check) is
  appended, in program order, to the list \<open>effects\<close>.
\<close>

type_synonym u32 = "32 word"
type_synonym u64 = "64 word"

subsection \<open>Constants and helpers declared outside the file\<close>

text \<open>
  The headers \<^verbatim>\<open>JitBase.h\<close>, \<^verbatim>\<open>PPCTables.h\<close> and \<^verbatim>\<open>Common/Align.h\<close> are not
  among the verified sources, so the constants \<^verbatim>\<open>SAFE_STACK_SIZE\<close>, \<^verbatim>\<open>MIN_UNSAFE_STACK_SIZE\<close>,
  \<^verbatim>\<open>GUARD_SIZE\<close>, \<^verbatim>\<open>GUARD_OFFSET\<close>, the flag masks \<^verbatim>\<open>FL_FLOAT_EXCEPTION\<close> and
  \<^verbatim>\<open>FL_FLOAT_DIV\<close>, and the helper \<^verbatim>\<open>Common::AlignUp\<close> are parameters of the
  model. \<open>is_WIN32\<close> stands for the preprocessor symbol \<^verbatim>\<open>_WIN32\<close>. Addresses and
  sizes (\<^verbatim>\<open>uintptr_t\<close>, \<^verbatim>\<open>size_t\<close>, \<^verbatim>\<open>long\<close>) are 64-bit words.
\<close>

record build =
  is_WIN32 :: bool
  SAFE_STACK_SIZE :: u64
  MIN_UNSAFE_STACK_SIZE :: u64
  GUARD_SIZE :: u64
  GUARD_OFFSET :: u64
  FL_FLOAT_EXCEPTION :: u64
  FL_FLOAT_DIV :: u64
  AlignUp :: "u64 \<Rightarrow> u64 \<Rightarrow> u64"

subsection \<open>What the functions read from their surroundings\<close>

text \<open>The configuration keys read by \<^verbatim>\<open>RefreshConfig\<close> through \<^verbatim>\<open>Config::Get\<close>.\<close>

record Config =
  MAIN_DEBUG_JIT_OFF :: bool
  MAIN_DEBUG_JIT_LOAD_STORE_OFF :: bool
  MAIN_DEBUG_JIT_LOAD_STORE_LXZ_OFF :: bool
  MAIN_DEBUG_JIT_LOAD_STORE_LWZ_OFF :: bool
  MAIN_DEBUG_JIT_LOAD_STORE_LBZX_OFF :: bool
  MAIN_DEBUG_JIT_LOAD_STORE_FLOATING_OFF :: bool
  MAIN_DEBUG_JIT_LOAD_STORE_PAIRED_OFF :: bool
  MAIN_DEBUG_JIT_FLOATING_POINT_OFF :: bool
  MAIN_DEBUG_JIT_INTEGER_OFF :: bool
  MAIN_DEBUG_JIT_PAIRED_OFF :: bool
  MAIN_DEBUG_JIT_SYSTEM_REGISTERS_OFF :: bool
  MAIN_DEBUG_JIT_BRANCH_OFF :: bool
  MAIN_DEBUG_JIT_REGISTER_CACHE_OFF :: bool
  MAIN_ENABLE_DEBUGGING :: bool
  MAIN_FLOAT_EXCEPTIONS :: bool
  MAIN_DIVIDE_BY_ZERO_EXCEPTIONS :: bool
  MAIN_LOW_DCBZ_HACK :: bool
  MAIN_FPRF :: bool
  MAIN_ACCURATE_NANS :: bool
  MAIN_FASTMEM :: bool
  MAIN_ACCURATE_CPU_CACHE :: bool
  MAIN_JIT_FOLLOW_BRANCH :: bool

text \<open>
  \<open>msr_DR\<close> is the bit \<^verbatim>\<open>PowerPC::ppcState.msr.DR\<close>: the PowerPC machine state
  register's data-relocation bit, which is set when the guest has data address
  translation switched on and clear when it runs with translation off (real mode).
  \<open>stack_addr\<close> and \<open>stack_size\<close> are the pair returned by
  \<^verbatim>\<open>Common::GetCurrentThreadStack\<close>; \<open>stack_middle_addr\<close> is the address of the
  local variable that \<^verbatim>\<open>ProtectStack\<close> takes as the current stack position;
  \<open>sysconf_PAGESIZE\<close> is the (signed) result of \<^verbatim>\<open>sysconf(_SC_PAGESIZE)\<close>.
\<close>

record env =
  config :: Config
  IsMMUMode :: bool
  IsPauseOnPanicMode :: bool
  IsCPUThread :: bool
  IsStepping :: bool
  memchecks_HasAny :: bool
  msr_DR :: bool
  breakpoints :: "u32 set"
  stack_addr :: u64
  stack_size :: u64
  stack_middle_addr :: u64
  sysconf_PAGESIZE :: u64

definition IsAddressBreakPoint :: "env \<Rightarrow> u32 \<Rightarrow> bool" where
  "IsAddressBreakPoint e a = (a \<in> breakpoints e)"

subsection \<open>What the functions do to their surroundings\<close>

datatype alert =
  Failed_to_get_correct_stack_base
| Failed_to_get_page_size
| Stack_is_too_small u64 u64 u64 u64

datatype event =
  PanicAlertFmt alert
| WARN_LOG_BLR_cache_disabled
| SetThreadStackGuarantee u32
| ReadProtectMemory u64 u64
| UnWriteProtectMemory u64 u64
| InvalidateICache u32 u32 bool
| ForceExceptionCheck int
| ClearCache_called
| resetstkoflw

subsection \<open>The object\<close>

record GekkoOPInfo =
  flags :: u64

record CodeOp =
  address :: u32
  isBranchTarget :: bool
  opinfo :: GekkoOPInfo

text \<open>The fields of \<^verbatim>\<open>jo\<close> (the options) and \<^verbatim>\<open>js\<close> (the state of the block
  being compiled) that the file uses. \<open>op\<close> is the decoded window seen through the
  pointer \<^verbatim>\<open>js.op\<close>: element \<open>i\<close> of the list is \<^verbatim>\<open>js.op[i]\<close>, element 0 the
  current instruction. \<open>instructionsLeft\<close> is a C \<^verbatim>\<open>int\<close>, compared with the
  \<^verbatim>\<open>int\<close> argument of \<^verbatim>\<open>CanMergeNextInstructions\<close> as a signed number.\<close>

record JitOptions =
  enableBlocklink :: bool
  fastmem :: bool
  fastmem_arena :: bool
  memcheck :: bool
  fp_exceptions :: bool
  div_by_zero_exceptions :: bool

record JitState =
  instructionsLeft :: int
  op :: "CodeOp list"

record PPCAnalyzer =
  DebuggingEnabled :: bool
  BranchFollowingEnabled :: bool
  FloatExceptionsEnabled :: bool
  DivByZeroExceptionsEnabled :: bool

text \<open>\<open>m_stack_guard\<close> is a pointer; the null pointer is the word 0.\<close>

record JitBase =
  bJITOff :: bool
  bJITLoadStoreOff :: bool
  bJITLoadStorelXzOff :: bool
  bJITLoadStorelwzOff :: bool
  bJITLoadStorelbzxOff :: bool
  bJITLoadStoreFloatingOff :: bool
  bJITLoadStorePairedOff :: bool
  bJITFloatingPointOff :: bool
  bJITIntegerOff :: bool
  bJITPairedOff :: bool
  bJITSystemRegistersOff :: bool
  bJITBranchOff :: bool
  bJITRegisterCacheOff :: bool
  m_enable_debugging :: bool
  m_enable_float_exceptions :: bool
  m_enable_div_by_zero_exceptions :: bool
  m_low_dcbz_hack :: bool
  m_fprf :: bool
  m_accurate_nans :: bool
  m_fastmem_enabled :: bool
  m_mmu_enabled :: bool
  m_pause_on_panic_enabled :: bool
  m_accurate_cpu_cache_enabled :: bool
  m_enable_blr_optimization :: bool
  m_cleanup_after_stackfault :: bool
  m_stack_guard :: u64
  jo :: JitOptions
  js :: JitState
  analyzer :: PPCAnalyzer
  effects :: "event list"

definition emit :: "event \<Rightarrow> JitBase \<Rightarrow> JitBase" where
  "emit ev s = s\<lparr>effects := effects s @ [ev]\<rparr>"

subsection \<open>RefreshConfig\<close>

definition RefreshConfig :: "env \<Rightarrow> JitBase \<Rightarrow> JitBase" where
  "RefreshConfig e s =
    (let c = config e;
         s1 = s\<lparr>bJITOff := MAIN_DEBUG_JIT_OFF c,
                bJITLoadStoreOff := MAIN_DEBUG_JIT_LOAD_STORE_OFF c,
                bJITLoadStorelXzOff := MAIN_DEBUG_JIT_LOAD_STORE_LXZ_OFF c,
                bJITLoadStorelwzOff := MAIN_DEBUG_JIT_LOAD_STORE_LWZ_OFF c,
                bJITLoadStorelbzxOff := MAIN_DEBUG_JIT_LOAD_STORE_LBZX_OFF c,
                bJITLoadStoreFloatingOff := MAIN_DEBUG_JIT_LOAD_STORE_FLOATING_OFF c,
                bJITLoadStorePairedOff := MAIN_DEBUG_JIT_LOAD_STORE_PAIRED_OFF c,
                bJITFloatingPointOff := MAIN_DEBUG_JIT_FLOATING_POINT_OFF c,
                bJITIntegerOff := MAIN_DEBUG_JIT_INTEGER_OFF c,
                bJITPairedOff := MAIN_DEBUG_JIT_PAIRED_OFF c,
                bJITSystemRegistersOff := MAIN_DEBUG_JIT_SYSTEM_REGISTERS_OFF c,
                bJITBranchOff := MAIN_DEBUG_JIT_BRANCH_OFF c,
                bJITRegisterCacheOff := MAIN_DEBUG_JIT_REGISTER_CACHE_OFF c,
                m_enable_debugging := MAIN_ENABLE_DEBUGGING c,
                m_enable_float_exceptions := MAIN_FLOAT_EXCEPTIONS c,
                m_enable_div_by_zero_exceptions := MAIN_DIVIDE_BY_ZERO_EXCEPTIONS c,
                m_low_dcbz_hack := MAIN_LOW_DCBZ_HACK c,
                m_fprf := MAIN_FPRF c,
                m_accurate_nans := MAIN_ACCURATE_NANS c,
                m_fastmem_enabled := MAIN_FASTMEM c,
                m_mmu_enabled := IsMMUMode e,
                m_pause_on_panic_enabled := IsPauseOnPanicMode e,
                m_accurate_cpu_cache_enabled := MAIN_ACCURATE_CPU_CACHE c\<rparr>;
         s2 = (if m_accurate_cpu_cache_enabled s1
               then s1\<lparr>m_fastmem_enabled := False, m_low_dcbz_hack := False\<rparr>
               else s1)
     in s2\<lparr>analyzer :=
              \<lparr>DebuggingEnabled = m_enable_debugging s2,
               BranchFollowingEnabled = MAIN_JIT_FOLLOW_BRANCH c,
               FloatExceptionsEnabled = m_enable_float_exceptions s2,
               DivByZeroExceptionsEnabled = m_enable_div_by_zero_exceptions s2\<rparr>\<rparr>)"

subsection \<open>UpdateMemoryAndExceptionOptions and ShouldHandleFPExceptionForInstruction\<close>

definition UpdateMemoryAndExceptionOptions :: "env \<Rightarrow> JitBase \<Rightarrow> JitBase" where
  "UpdateMemoryAndExceptionOptions e s =
    (let any_watchpoints = memchecks_HasAny e
     in s\<lparr>jo := (jo s)\<lparr>
          fastmem := m_fastmem_enabled s \<and> fastmem_arena (jo s) \<and>
                     (msr_DR e \<or> \<not> any_watchpoints),
          memcheck := m_mmu_enabled s \<or> m_pause_on_panic_enabled s \<or> any_watchpoints,
          fp_exceptions := m_enable_float_exceptions s,
          div_by_zero_exceptions := m_enable_div_by_zero_exceptions s\<rparr>\<rparr>)"

definition ShouldHandleFPExceptionForInstruction :: "build \<Rightarrow> JitBase \<Rightarrow> CodeOp \<Rightarrow> bool" where
  "ShouldHandleFPExceptionForInstruction b s opr =
    (if fp_exceptions (jo s) then (flags (opinfo opr) AND FL_FLOAT_EXCEPTION b) \<noteq> 0
     else if div_by_zero_exceptions (jo s) then (flags (opinfo opr) AND FL_FLOAT_DIV b) \<noteq> 0
     else False)"

subsection \<open>The BLR optimization and its stack guard\<close>

definition InitBLROptimization :: "JitBase \<Rightarrow> JitBase" where
  "InitBLROptimization s =
    s\<lparr>m_enable_blr_optimization :=
         enableBlocklink (jo s) \<and> m_fastmem_enabled s \<and> \<not> m_enable_debugging s,
      m_cleanup_after_stackfault := False\<rparr>"

text \<open>The address that \<^verbatim>\<open>ProtectStack\<close> computes for the guard region, in the
  \<^verbatim>\<open>uintptr_t\<close> arithmetic of the source.\<close>

definition stack_guard_addr :: "build \<Rightarrow> env \<Rightarrow> u64" where
  "stack_guard_addr b e = AlignUp b (stack_addr e + GUARD_OFFSET b) (sysconf_PAGESIZE e)"

definition ProtectStack :: "build \<Rightarrow> env \<Rightarrow> JitBase \<Rightarrow> JitBase" where
  "ProtectStack b e s =
    (if \<not> m_enable_blr_optimization s then s
     else if is_WIN32 b then emit (SetThreadStackGuarantee (ucast (SAFE_STACK_SIZE b))) s
     else
       let stack_base_addr = stack_addr e;
           stack_middle = stack_middle_addr e
       in if stack_middle < stack_base_addr \<or> stack_middle \<ge> stack_base_addr + stack_size e
          then (emit (PanicAlertFmt Failed_to_get_correct_stack_base) s)
                 \<lparr>m_enable_blr_optimization := False\<rparr>
          else
            let page_size = sysconf_PAGESIZE e
            in if sint page_size \<le> 0
               then (emit (PanicAlertFmt Failed_to_get_page_size) s)
                      \<lparr>m_enable_blr_optimization := False\<rparr>
               else
                 let guard = AlignUp b (stack_base_addr + GUARD_OFFSET b) page_size
                 in if guard \<ge> stack_middle \<or>
                       stack_middle - guard < GUARD_SIZE b + MIN_UNSAFE_STACK_SIZE b
                    then (emit (PanicAlertFmt (Stack_is_too_small (stack_size e)
                                  stack_base_addr stack_middle page_size)) s)
                           \<lparr>m_enable_blr_optimization := False\<rparr>
                    else emit (ReadProtectMemory guard (GUARD_SIZE b))
                           (s\<lparr>m_stack_guard := guard\<rparr>))"

definition UnprotectStack :: "build \<Rightarrow> JitBase \<Rightarrow> JitBase" where
  "UnprotectStack b s =
    (if is_WIN32 b then s
     else if m_stack_guard s \<noteq> 0
          then (emit (UnWriteProtectMemory (m_stack_guard s) (GUARD_SIZE b)) s)
                 \<lparr>m_stack_guard := 0\<rparr>
          else s)"

definition HandleStackFault :: "build \<Rightarrow> env \<Rightarrow> JitBase \<Rightarrow> bool \<times> JitBase" where
  "HandleStackFault b e s =
    (if \<not> m_enable_blr_optimization s \<or> \<not> IsCPUThread e then (False, s)
     else
       let s1 = emit WARN_LOG_BLR_cache_disabled s;
           s2 = UnprotectStack b s1;
           s3 = s2\<lparr>m_enable_blr_optimization := False\<rparr>;
           s4 = emit (InvalidateICache 0 0xffffffff True) s3;
           s5 = emit (ForceExceptionCheck 0) s4
       in (True, s5\<lparr>m_cleanup_after_stackfault := True\<rparr>))"

text \<open>\<^verbatim>\<open>ClearCache\<close> is a virtual function that the code generators implement; the
  call is recorded as an effect.\<close>

definition ClearCache :: "JitBase \<Rightarrow> JitBase" where
  "ClearCache s = emit ClearCache_called s"

definition CleanUpAfterStackFault :: "build \<Rightarrow> JitBase \<Rightarrow> JitBase" where
  "CleanUpAfterStackFault b s =
    (if m_cleanup_after_stackfault s
     then let s1 = ClearCache s;
              s2 = s1\<lparr>m_cleanup_after_stackfault := False\<rparr>
          in if is_WIN32 b then emit resetstkoflw s2 else s2
     else s)"

subsection \<open>CanMergeNextInstructions\<close>

text \<open>
  The \<^verbatim>\<open>for\<close> loop of \<^verbatim>\<open>CanMergeNextInstructions\<close>, from index \<open>i\<close> on. The result
  \<open>None\<close> stands for undefined behaviour of the C++ program: a read of \<^verbatim>\<open>js.op[i]\<close>
  past the decoded window, or an increment of the \<^verbatim>\<open>int\<close> index beyond \<^verbatim>\<open>INT_MAX\<close>.
  The read of \<^verbatim>\<open>js.op[i]\<close> happens in every iteration, for the branch-target test.
\<close>

definition INT_MAX :: int where
  "INT_MAX = 2147483647"

function merge_loop :: "JitBase \<Rightarrow> env \<Rightarrow> int \<Rightarrow> int \<Rightarrow> bool option" where
  "merge_loop s e count i =
    (if i \<le> count
     then if i < 0 \<or> int (length (op (js s))) \<le> i then None
          else let opi = op (js s) ! nat i
               in if m_enable_debugging s \<and> IsAddressBreakPoint e (address opi) then Some False
                  else if isBranchTarget opi then Some False
                  else if i = INT_MAX then None
                  else merge_loop s e count (i + 1)
     else Some True)"
  by pat_completeness auto
termination
  by (relation "measure (\<lambda>(s, e, count, i). nat (count + 1 - i))") auto

definition CanMergeNextInstructions :: "env \<Rightarrow> JitBase \<Rightarrow> int \<Rightarrow> bool option" where
  "CanMergeNextInstructions e s count =
    (if IsStepping e \<or> instructionsLeft (js s) < count then Some False
     else merge_loop s e count 1)"

text \<open>The decoded window holds the current instruction and the \<open>instructionsLeft\<close>
  ones after it, and its indices fit an \<^verbatim>\<open>int\<close>.\<close>

definition window_ok :: "JitBase \<Rightarrow> bool" where
  "window_ok s = (instructionsLeft (js s) < int (length (op (js s))) \<and>
                  int (length (op (js s))) \<le> INT_MAX)"

subsection \<open>Sequences of calls\<close>

text \<open>
  The member functions of the file that change the object, and the runs of such calls,
  each call in the surroundings of its moment. A session is what happens between two
  calls of \<^verbatim>\<open>InitBLROptimization\<close>: a run without that call.
\<close>

datatype call =
  Call_RefreshConfig
| Call_InitBLROptimization
| Call_ProtectStack
| Call_UnprotectStack
| Call_HandleStackFault
| Call_CleanUpAfterStackFault
| Call_UpdateMemoryAndExceptionOptions

fun exec_call :: "build \<Rightarrow> call \<times> env \<Rightarrow> JitBase \<Rightarrow> JitBase" where
  "exec_call b (Call_RefreshConfig, e) s = RefreshConfig e s"
| "exec_call b (Call_InitBLROptimization, e) s = InitBLROptimization s"
| "exec_call b (Call_ProtectStack, e) s = ProtectStack b e s"
| "exec_call b (Call_UnprotectStack, e) s = UnprotectStack b s"
| "exec_call b (Call_HandleStackFault, e) s = snd (HandleStackFault b e s)"
| "exec_call b (Call_CleanUpAfterStackFault, e) s = CleanUpAfterStackFault b s"
| "exec_call b (Call_UpdateMemoryAndExceptionOptions, e) s = UpdateMemoryAndExceptionOptions e s"

fun exec_calls :: "build \<Rightarrow> (call \<times> env) list \<Rightarrow> JitBase \<Rightarrow> JitBase" where
  "exec_calls b [] s = s"
| "exec_calls b (c # cs) s = exec_calls b cs (exec_call b c s)"

definition session :: "(call \<times> env) list \<Rightarrow> bool" where
  "session cs = (\<forall>c \<in> set cs. fst c \<noteq> Call_InitBLROptimization)"

definition no_refresh :: "(call \<times> env) list \<Rightarrow> bool" where
  "no_refresh cs = (\<forall>c \<in> set cs. fst c \<noteq> Call_RefreshConfig)"

definition cache_clears :: "JitBase \<Rightarrow> nat" where
  "cache_clears s = length (filter (\<lambda>ev. ev = ClearCache_called) (effects s))"

subsection \<open>The statements of the specification, in its own words\<close>

text \<open>The guest runs with data address translation disabled when \<^verbatim>\<open>MSR.DR\<close> is
  clear.\<close>

definition address_translation_disabled :: "env \<Rightarrow> bool" where
  "address_translation_disabled e = (\<not> msr_DR e)"

definition spec_fastmem_generation :: "env \<Rightarrow> JitBase \<Rightarrow> bool" where
  "spec_fastmem_generation e s =
    (m_fastmem_enabled s \<and> fastmem_arena (jo s) \<and>
     (address_translation_disabled e \<or> \<not> memchecks_HasAny e))"

text \<open>The instruction's static flags, tested against a mask as the source tests
  them.\<close>

definition float_exception_capable :: "build \<Rightarrow> CodeOp \<Rightarrow> bool" where
  "float_exception_capable b opr = ((flags (opinfo opr) AND FL_FLOAT_EXCEPTION b) \<noteq> 0)"

definition floating_point_divide :: "build \<Rightarrow> CodeOp \<Rightarrow> bool" where
  "floating_point_divide b opr = ((flags (opinfo opr) AND FL_FLOAT_DIV b) \<noteq> 0)"

text \<open>The three environment-integrity checks, on the numbers the addresses and sizes
  stand for. The remaining stack is the distance from the guard address that
  \<^verbatim>\<open>ProtectStack\<close> computes up to the current stack position; the required margin is
  the sum \<^verbatim>\<open>GUARD_SIZE + MIN_UNSAFE_STACK_SIZE\<close> as the source forms it.\<close>

definition middle_outside_stack_bounds :: "env \<Rightarrow> bool" where
  "middle_outside_stack_bounds e =
    (unat (stack_middle_addr e) < unat (stack_addr e) \<or>
     unat (stack_addr e) + unat (stack_size e) \<le> unat (stack_middle_addr e))"

definition page_size_invalid :: "env \<Rightarrow> bool" where
  "page_size_invalid e = (sint (sysconf_PAGESIZE e) \<le> 0)"

definition remaining_stack :: "build \<Rightarrow> env \<Rightarrow> int" where
  "remaining_stack b e = int (unat (stack_middle_addr e)) - int (unat (stack_guard_addr b e))"

definition required_margin :: "build \<Rightarrow> int" where
  "required_margin b = int (unat (GUARD_SIZE b + MIN_UNSAFE_STACK_SIZE b))"

definition margin_not_exceeded :: "build \<Rightarrow> env \<Rightarrow> bool" where
  "margin_not_exceeded b e = (remaining_stack b e \<le> required_margin b)"

definition margin_not_reached :: "build \<Rightarrow> env \<Rightarrow> bool" where
  "margin_not_reached b e = (remaining_stack b e < required_margin b)"

subsection \<open>Concrete inputs\<close>

text \<open>A build for a host with page protection, with the sizes 256 KiB, 192 KiB and
  64 KiB for the safe stack, the least unsafe stack and the guard, the guard offset
  \<^verbatim>\<open>SAFE_STACK_SIZE - GUARD_SIZE\<close>, two distinct bits for the flag masks, and
  rounding up to a multiple for \<^verbatim>\<open>AlignUp\<close>.\<close>

definition round_up :: "u64 \<Rightarrow> u64 \<Rightarrow> u64" where
  "round_up v a = v + (a - v mod a) mod a"

definition posix_build :: build where
  "posix_build =
    \<lparr>is_WIN32 = False, SAFE_STACK_SIZE = 0x40000, MIN_UNSAFE_STACK_SIZE = 0x30000,
     GUARD_SIZE = 0x10000, GUARD_OFFSET = 0x30000,
     FL_FLOAT_EXCEPTION = 0x200000, FL_FLOAT_DIV = 0x400000, AlignUp = round_up\<rparr>"

definition default_Config :: Config where
  "default_Config =
    \<lparr>MAIN_DEBUG_JIT_OFF = False, MAIN_DEBUG_JIT_LOAD_STORE_OFF = False,
     MAIN_DEBUG_JIT_LOAD_STORE_LXZ_OFF = False, MAIN_DEBUG_JIT_LOAD_STORE_LWZ_OFF = False,
     MAIN_DEBUG_JIT_LOAD_STORE_LBZX_OFF = False,
     MAIN_DEBUG_JIT_LOAD_STORE_FLOATING_OFF = False,
     MAIN_DEBUG_JIT_LOAD_STORE_PAIRED_OFF = False,
     MAIN_DEBUG_JIT_FLOATING_POINT_OFF = False, MAIN_DEBUG_JIT_INTEGER_OFF = False,
     MAIN_DEBUG_JIT_PAIRED_OFF = False, MAIN_DEBUG_JIT_SYSTEM_REGISTERS_OFF = False,
     MAIN_DEBUG_JIT_BRANCH_OFF = False, MAIN_DEBUG_JIT_REGISTER_CACHE_OFF = False,
     MAIN_ENABLE_DEBUGGING = False, MAIN_FLOAT_EXCEPTIONS = False,
     MAIN_DIVIDE_BY_ZERO_EXCEPTIONS = False, MAIN_LOW_DCBZ_HACK = True,
     MAIN_FPRF = False, MAIN_ACCURATE_NANS = False, MAIN_FASTMEM = True,
     MAIN_ACCURATE_CPU_CACHE = False, MAIN_JIT_FOLLOW_BRANCH = True\<rparr>"

text \<open>The execution thread, with an 8 MiB stack and 4 KiB pages, no watchpoints and one
  breakpoint.\<close>

definition cpu_env :: env where
  "cpu_env =
    \<lparr>config = default_Config, IsMMUMode = False, IsPauseOnPanicMode = False,
     IsCPUThread = True, IsStepping = False, memchecks_HasAny = False, msr_DR = True,
     breakpoints = {0x80003104},
     stack_addr = 0x7F0000000000, stack_size = 0x800000,
     stack_middle_addr = 0x7F00007FF000, sysconf_PAGESIZE = 0x1000\<rparr>"

definition fresh_JitBase :: JitBase where
  "fresh_JitBase =
    \<lparr>bJITOff = False, bJITLoadStoreOff = False, bJITLoadStorelXzOff = False,
     bJITLoadStorelwzOff = False, bJITLoadStorelbzxOff = False,
     bJITLoadStoreFloatingOff = False, bJITLoadStorePairedOff = False,
     bJITFloatingPointOff = False, bJITIntegerOff = False, bJITPairedOff = False,
     bJITSystemRegistersOff = False, bJITBranchOff = False, bJITRegisterCacheOff = False,
     m_enable_debugging = False, m_enable_float_exceptions = False,
     m_enable_div_by_zero_exceptions = False, m_low_dcbz_hack = False, m_fprf = False,
     m_accurate_nans = False, m_fastmem_enabled = False, m_mmu_enabled = False,
     m_pause_on_panic_enabled = False, m_accurate_cpu_cache_enabled = False,
     m_enable_blr_optimization = False, m_cleanup_after_stackfault = False,
     m_stack_guard = 0,
     jo = \<lparr>enableBlocklink = True, fastmem = False, fastmem_arena = True,
           memcheck = False, fp_exceptions = False, div_by_zero_exceptions = False\<rparr>,
     js = \<lparr>instructionsLeft = 0, op = []\<rparr>,
     analyzer = \<lparr>DebuggingEnabled = False, BranchFollowingEnabled = False,
                 FloatExceptionsEnabled = False, DivByZeroExceptionsEnabled = False\<rparr>,
     effects = []\<rparr>"

text \<open>The same thread with a watchpoint set; with the accurate data cache configured;
  with float-exception fidelity configured; with the divide fidelity alone; and with
  the stack position exactly \<open>GUARD_SIZE + MIN_UNSAFE_STACK_SIZE\<close> above the guard
  address, and 16 bytes lower.\<close>

definition watch_env :: env where
  "watch_env = cpu_env\<lparr>memchecks_HasAny := True\<rparr>"

definition accurate_env :: env where
  "accurate_env = cpu_env\<lparr>config := default_Config\<lparr>MAIN_ACCURATE_CPU_CACHE := True\<rparr>\<rparr>"

definition float_env :: env where
  "float_env = cpu_env\<lparr>config := default_Config\<lparr>MAIN_FLOAT_EXCEPTIONS := True\<rparr>\<rparr>"

definition divide_env :: env where
  "divide_env = cpu_env\<lparr>config := default_Config\<lparr>MAIN_DIVIDE_BY_ZERO_EXCEPTIONS := True\<rparr>\<rparr>"

definition edge_env :: env where
  "edge_env = cpu_env\<lparr>stack_middle_addr := 0x7F0000070000\<rparr>"

definition short_env :: env where
  "short_env = cpu_env\<lparr>stack_middle_addr := 0x7F000006FFF0\<rparr>"

text \<open>Objects: with fastmem configured; armed; armed with a guard region held; and
  with a decoded window of three instructions, the second at the breakpoint and the
  third a branch target.\<close>

definition fastmem_JitBase :: JitBase where
  "fastmem_JitBase = fresh_JitBase\<lparr>m_fastmem_enabled := True\<rparr>"

definition armed_JitBase :: JitBase where
  "armed_JitBase = fresh_JitBase\<lparr>m_fastmem_enabled := True, m_enable_blr_optimization := True\<rparr>"

definition guarded_JitBase :: JitBase where
  "guarded_JitBase = armed_JitBase\<lparr>m_stack_guard := 0x7F0000030000\<rparr>"

definition plain_op :: CodeOp where
  "plain_op = \<lparr>address = 0x80003100, isBranchTarget = False, opinfo = \<lparr>flags = 0\<rparr>\<rparr>"

definition float_op :: CodeOp where
  "float_op = \<lparr>address = 0x80003100, isBranchTarget = False, opinfo = \<lparr>flags = 0x200000\<rparr>\<rparr>"

definition window_JitBase :: JitBase where
  "window_JitBase = fresh_JitBase\<lparr>js :=
     \<lparr>instructionsLeft = 2,
      op = [plain_op, plain_op\<lparr>address := 0x80003104\<rparr>,
            plain_op\<lparr>address := 0x80003108, isBranchTarget := True\<rparr>]\<rparr>\<rparr>"

definition cleanup_twice :: "(call \<times> env) list" where
  "cleanup_twice =
    [(Call_CleanUpAfterStackFault, cpu_env), (Call_ProtectStack, cpu_env),
     (Call_CleanUpAfterStackFault, cpu_env)]"

definition update_only :: "(call \<times> env) list" where
  "update_only = [(Call_UpdateMemoryAndExceptionOptions, watch_env)]"

section \<open>Properties\<close>

subsection \<open>Auxiliary facts\<close>

declare merge_loop.simps [simp del]

lemma HandleStackFault_declines:
  "\<not> m_enable_blr_optimization s \<or> \<not> IsCPUThread e \<Longrightarrow> HandleStackFault b e s = (False, s)"
  by (auto simp: HandleStackFault_def)

lemma HandleStackFault_handles:
  "m_enable_blr_optimization s \<Longrightarrow> IsCPUThread e \<Longrightarrow>
   HandleStackFault b e s =
     (True,
      s\<lparr>m_enable_blr_optimization := False,
        m_cleanup_after_stackfault := True,
        m_stack_guard := (if is_WIN32 b then m_stack_guard s else 0),
        effects := effects s @ [WARN_LOG_BLR_cache_disabled] @
                   (if \<not> is_WIN32 b \<and> m_stack_guard s \<noteq> 0
                    then [UnWriteProtectMemory (m_stack_guard s) (GUARD_SIZE b)] else []) @
                   [InvalidateICache 0 0xffffffff True, ForceExceptionCheck 0]\<rparr>)"
  by (simp add: HandleStackFault_def UnprotectStack_def emit_def Let_def)

lemma ProtectStack_disarmed:
  "\<not> m_enable_blr_optimization s \<Longrightarrow> ProtectStack b e s = s"
  by (simp add: ProtectStack_def)

text \<open>One call of a session on a disarmed object: it stays disarmed, the pending flag
  can only be cleared, and the cache is cleared only by a pending cleanup.\<close>

lemma exec_call_disarmed:
  assumes "fst c \<noteq> Call_InitBLROptimization" and "\<not> m_enable_blr_optimization s"
  shows "\<not> m_enable_blr_optimization (exec_call b c s)"
    and "m_cleanup_after_stackfault (exec_call b c s) =
           (m_cleanup_after_stackfault s \<and> fst c \<noteq> Call_CleanUpAfterStackFault)"
    and "cache_clears (exec_call b c s) =
           cache_clears s +
           (if m_cleanup_after_stackfault s \<and> fst c = Call_CleanUpAfterStackFault then 1 else 0)"
proof -
  obtain k e where c: "c = (k, e)" by (cases c)
  show "\<not> m_enable_blr_optimization (exec_call b c s)"
    using assms unfolding c
    by (cases k)
      (simp_all add: RefreshConfig_def Let_def ProtectStack_disarmed UnprotectStack_def
        HandleStackFault_declines CleanUpAfterStackFault_def ClearCache_def emit_def
        UpdateMemoryAndExceptionOptions_def)
  show "m_cleanup_after_stackfault (exec_call b c s) =
           (m_cleanup_after_stackfault s \<and> fst c \<noteq> Call_CleanUpAfterStackFault)"
    using assms unfolding c
    by (cases k)
      (simp_all add: RefreshConfig_def Let_def ProtectStack_disarmed UnprotectStack_def
        HandleStackFault_declines CleanUpAfterStackFault_def ClearCache_def emit_def
        UpdateMemoryAndExceptionOptions_def)
  show "cache_clears (exec_call b c s) =
           cache_clears s +
           (if m_cleanup_after_stackfault s \<and> fst c = Call_CleanUpAfterStackFault then 1 else 0)"
    using assms unfolding c
    by (cases k)
      (simp_all add: RefreshConfig_def Let_def ProtectStack_disarmed UnprotectStack_def
        HandleStackFault_declines CleanUpAfterStackFault_def ClearCache_def emit_def
        UpdateMemoryAndExceptionOptions_def cache_clears_def)
qed

lemma exec_calls_disarmed:
  "session cs \<Longrightarrow> \<not> m_enable_blr_optimization s \<Longrightarrow>
   \<not> m_enable_blr_optimization (exec_calls b cs s)"
proof (induction cs arbitrary: s)
  case Nil
  then show ?case by simp
next
  case (Cons c cs)
  then have "fst c \<noteq> Call_InitBLROptimization" and "session cs"
    by (simp_all add: session_def)
  with Cons show ?case
    by (simp add: exec_call_disarmed(1))
qed

lemma exec_calls_cache_clears:
  "session cs \<Longrightarrow> \<not> m_enable_blr_optimization s \<Longrightarrow>
   cache_clears (exec_calls b cs s) =
     cache_clears s +
     (if m_cleanup_after_stackfault s \<and> (\<exists>c \<in> set cs. fst c = Call_CleanUpAfterStackFault)
      then 1 else 0)"
proof (induction cs arbitrary: s)
  case Nil
  then show ?case by simp
next
  case (Cons c cs)
  then have c: "fst c \<noteq> Call_InitBLROptimization" and cs: "session cs"
    by (simp_all add: session_def)
  note step = exec_call_disarmed[OF c Cons.prems(2), of b]
  have "cache_clears (exec_calls b (c # cs) s) =
        cache_clears (exec_call b c s) +
        (if m_cleanup_after_stackfault (exec_call b c s) \<and>
            (\<exists>c \<in> set cs. fst c = Call_CleanUpAfterStackFault) then 1 else 0)"
    using Cons.IH[OF cs step(1)] by simp
  then show ?case
    unfolding step(2) step(3) by auto
qed

text \<open>Only \<^verbatim>\<open>RefreshConfig\<close> writes \<^verbatim>\<open>m_fastmem_enabled\<close>.\<close>

lemma exec_call_fastmem_enabled:
  "fst c \<noteq> Call_RefreshConfig \<Longrightarrow> m_fastmem_enabled (exec_call b c s) = m_fastmem_enabled s"
proof -
  assume a: "fst c \<noteq> Call_RefreshConfig"
  obtain k e where c: "c = (k, e)" by (cases c)
  show ?thesis
    using a unfolding c
    by (cases k)
      (simp_all add: InitBLROptimization_def ProtectStack_def Let_def UnprotectStack_def
        HandleStackFault_def CleanUpAfterStackFault_def ClearCache_def emit_def
        UpdateMemoryAndExceptionOptions_def)
qed

lemma exec_calls_fastmem_enabled:
  "no_refresh cs \<Longrightarrow> m_fastmem_enabled (exec_calls b cs s) = m_fastmem_enabled s"
  by (induction cs arbitrary: s) (simp_all add: no_refresh_def exec_call_fastmem_enabled)

text \<open>The loop of \<^verbatim>\<open>CanMergeNextInstructions\<close> on a window that reaches index
  \<open>count\<close>: it returns, and it returns whether no scanned instruction disqualifies.\<close>

lemma merge_loop_scan:
  "0 \<le> i \<Longrightarrow> count < int (length (op (js s))) \<Longrightarrow> int (length (op (js s))) \<le> INT_MAX \<Longrightarrow>
   merge_loop s e count i =
     Some (\<forall>k \<in> {i..count}.
             \<not> (m_enable_debugging s \<and> IsAddressBreakPoint e (address (op (js s) ! nat k))) \<and>
             \<not> isBranchTarget (op (js s) ! nat k))"
proof (induction s e count i rule: merge_loop.induct)
  case (1 s e count i)
  show ?case
  proof (cases "i \<le> count")
    case False
    then show ?thesis by (subst merge_loop.simps) simp
  next
    case True
    let ?bad = "\<lambda>k. (m_enable_debugging s \<and> IsAddressBreakPoint e (address (op (js s) ! nat k))) \<or>
                     isBranchTarget (op (js s) ! nat k)"
    have inrange: "\<not> (i < 0 \<or> int (length (op (js s))) \<le> i)"
      using True "1.prems" by simp
    have notmax: "i \<noteq> INT_MAX"
      using True "1.prems" by simp
    show ?thesis
    proof (cases "?bad i")
      case True
      with \<open>i \<le> count\<close> have "\<not> (\<forall>k \<in> {i..count}. \<not> ?bad k)" by auto
      moreover have "merge_loop s e count i = Some False"
        using True \<open>i \<le> count\<close> inrange by (subst merge_loop.simps) (auto simp: Let_def)
      ultimately show ?thesis by auto
    next
      case False
      have step: "merge_loop s e count i = merge_loop s e count (i + 1)"
        using False \<open>i \<le> count\<close> inrange notmax by (subst merge_loop.simps) (auto simp: Let_def)
      have ih: "merge_loop s e count (i + 1) = Some (\<forall>k \<in> {i + 1..count}. \<not> ?bad k)"
        using "1.IH"[OF \<open>i \<le> count\<close> inrange refl] False notmax "1.prems" by auto
      have "{i..count} = insert i {i + 1..count}"
        using \<open>i \<le> count\<close> by auto
      then have "(\<forall>k \<in> {i..count}. \<not> ?bad k) = (\<forall>k \<in> {i + 1..count}. \<not> ?bad k)"
        using False by auto
      with step ih show ?thesis by auto
    qed
  qed
qed

text \<open>The first and the third integrity check of \<^verbatim>\<open>ProtectStack\<close> are made in
  wrapping \<^verbatim>\<open>uintptr_t\<close> arithmetic; they catch every stack position that is out of
  bounds, or too close to the guard address, as numbers.\<close>

lemma outside_bounds_detected:
  assumes "middle_outside_stack_bounds e"
  shows "stack_middle_addr e < stack_addr e \<or>
         stack_middle_addr e \<ge> stack_addr e + stack_size e"
proof (cases "unat (stack_middle_addr e) < unat (stack_addr e)")
  case True
  then show ?thesis by (simp add: word_less_nat_alt)
next
  case False
  with assms have le: "unat (stack_addr e) + unat (stack_size e) \<le> unat (stack_middle_addr e)"
    by (simp add: middle_outside_stack_bounds_def)
  have "unat (stack_addr e + stack_size e) \<le> unat (stack_addr e) + unat (stack_size e)"
    by (simp add: unat_word_ariths)
  with le show ?thesis by (simp add: word_le_nat_alt)
qed

lemma margin_not_reached_detected:
  assumes "margin_not_reached b e"
  shows "stack_guard_addr b e \<ge> stack_middle_addr e \<or>
         stack_middle_addr e - stack_guard_addr b e < GUARD_SIZE b + MIN_UNSAFE_STACK_SIZE b"
proof (cases "stack_guard_addr b e \<ge> stack_middle_addr e")
  case True
  then show ?thesis by simp
next
  case False
  then have lt: "stack_guard_addr b e \<le> stack_middle_addr e" by simp
  have "uint (stack_guard_addr b e) \<le> uint (stack_middle_addr e)"
    using lt by (simp add: word_le_def)
  then have "uint (stack_middle_addr e - stack_guard_addr b e) =
             uint (stack_middle_addr e) - uint (stack_guard_addr b e)"
    by (simp add: uint_sub_lem)
  then have "uint (stack_middle_addr e - stack_guard_addr b e) = remaining_stack b e"
    by (simp add: remaining_stack_def)
  with assms have "uint (stack_middle_addr e - stack_guard_addr b e) <
                   uint (GUARD_SIZE b + MIN_UNSAFE_STACK_SIZE b)"
    by (simp add: margin_not_reached_def required_margin_def)
  then show ?thesis by (simp add: word_less_alt)
qed

subsection \<open>C1: the options set by UpdateMemoryAndExceptionOptions\<close>

text \<open>
  As stated, C1 gives fastmem generation as configured fastmem, and an arena, and
  (address translation disabled or no watchpoints). The source tests \<^verbatim>\<open>msr.DR\<close>
  itself, which is set when translation is enabled: with fastmem configured, an arena,
  a watchpoint and translation enabled, the function switches fastmem generation on,
  where the stated formula gives off.
\<close>

theorem fastmem_generation_as_stated_counterexample:
  "fastmem (jo (UpdateMemoryAndExceptionOptions watch_env fastmem_JitBase)) \<and>
   \<not> spec_fastmem_generation watch_env fastmem_JitBase"
  by (simp add: UpdateMemoryAndExceptionOptions_def spec_fastmem_generation_def
      address_translation_disabled_def watch_env_def fastmem_JitBase_def cpu_env_def
      fresh_JitBase_def)

text \<open>
  Claim C1, amended. For every object and surroundings,
  \<^verbatim>\<open>UpdateMemoryAndExceptionOptions\<close> sets: fastmem generation to configured fastmem
  and arena available and (address translation enabled, that is \<^verbatim>\<open>MSR.DR\<close> set, or
  no watchpoints); memcheck generation to MMU mode or pause-on-panic mode or any
  watchpoints; fp-exception generation to the configured float-exception fidelity;
  div-by-zero generation to the configured divide fidelity.
\<close>

theorem UpdateMemoryAndExceptionOptions_options:
  "fastmem (jo (UpdateMemoryAndExceptionOptions e s)) =
     (m_fastmem_enabled s \<and> fastmem_arena (jo s) \<and>
      (\<not> address_translation_disabled e \<or> \<not> memchecks_HasAny e)) \<and>
   memcheck (jo (UpdateMemoryAndExceptionOptions e s)) =
     (m_mmu_enabled s \<or> m_pause_on_panic_enabled s \<or> memchecks_HasAny e) \<and>
   fp_exceptions (jo (UpdateMemoryAndExceptionOptions e s)) = m_enable_float_exceptions s \<and>
   div_by_zero_exceptions (jo (UpdateMemoryAndExceptionOptions e s)) =
     m_enable_div_by_zero_exceptions s"
  by (simp add: UpdateMemoryAndExceptionOptions_def address_translation_disabled_def Let_def)

theorem UpdateMemoryAndExceptionOptions_options_witness:
  "fastmem (jo (UpdateMemoryAndExceptionOptions watch_env fastmem_JitBase)) \<and>
   memcheck (jo (UpdateMemoryAndExceptionOptions watch_env fastmem_JitBase)) \<and>
   \<not> fp_exceptions (jo (UpdateMemoryAndExceptionOptions watch_env fastmem_JitBase)) \<and>
   \<not> div_by_zero_exceptions (jo (UpdateMemoryAndExceptionOptions watch_env fastmem_JitBase)) \<and>
   \<not> fastmem (jo (UpdateMemoryAndExceptionOptions (watch_env\<lparr>msr_DR := False\<rparr>)
                   fastmem_JitBase))"
  using UpdateMemoryAndExceptionOptions_options[of watch_env fastmem_JitBase]
    UpdateMemoryAndExceptionOptions_options[of "watch_env\<lparr>msr_DR := False\<rparr>" fastmem_JitBase]
  by (simp add: address_translation_disabled_def watch_env_def fastmem_JitBase_def cpu_env_def
      fresh_JitBase_def)

subsection \<open>C2: CanMergeNextInstructions\<close>

text \<open>
  Claim C2. On every decoded window and for every count \<open>n\<close>,
  \<^verbatim>\<open>CanMergeNextInstructions(n)\<close> returns, and it returns true exactly when single-step
  mode is off, at least \<open>n\<close> instructions remain decoded, and none of the instructions
  at the indices 1 to \<open>n\<close> from the current one is flagged as a branch target
  (whatever the debugging state) or, with debugging enabled, at a breakpoint address.
\<close>

theorem CanMergeNextInstructions_result:
  "window_ok s \<Longrightarrow>
   CanMergeNextInstructions e s n =
     Some (\<not> IsStepping e \<and> n \<le> instructionsLeft (js s) \<and>
           (\<forall>i \<in> {1..n}.
              \<not> isBranchTarget (op (js s) ! nat i) \<and>
              \<not> (m_enable_debugging s \<and> IsAddressBreakPoint e (address (op (js s) ! nat i)))))"
proof -
  assume w: "window_ok s"
  show ?thesis
  proof (cases "IsStepping e \<or> instructionsLeft (js s) < n")
    case True
    then show ?thesis by (auto simp: CanMergeNextInstructions_def)
  next
    case False
    then have "n < int (length (op (js s)))" and "int (length (op (js s))) \<le> INT_MAX"
      using w by (auto simp: window_ok_def)
    then have "merge_loop s e n 1 =
      Some (\<forall>k \<in> {1..n}.
             \<not> (m_enable_debugging s \<and> IsAddressBreakPoint e (address (op (js s) ! nat k))) \<and>
             \<not> isBranchTarget (op (js s) ! nat k))"
      by (intro merge_loop_scan) auto
    with False show ?thesis by (auto simp: CanMergeNextInstructions_def)
  qed
qed

theorem CanMergeNextInstructions_result_witness:
  "window_ok window_JitBase \<and>
   CanMergeNextInstructions cpu_env window_JitBase 1 = Some True \<and>
   CanMergeNextInstructions cpu_env window_JitBase 2 = Some False \<and>
   CanMergeNextInstructions cpu_env (window_JitBase\<lparr>m_enable_debugging := True\<rparr>) 1 = Some False \<and>
   CanMergeNextInstructions cpu_env window_JitBase 3 = Some False \<and>
   CanMergeNextInstructions (cpu_env\<lparr>IsStepping := True\<rparr>) window_JitBase 1 = Some False"
proof -
  have w: "window_ok window_JitBase" "window_ok (window_JitBase\<lparr>m_enable_debugging := True\<rparr>)"
    by (simp_all add: window_ok_def window_JitBase_def fresh_JitBase_def INT_MAX_def)
  have two: "{1..2::int} = {1, 2}" by auto
  show ?thesis
    using w CanMergeNextInstructions_result[OF w(1), of cpu_env 1]
      CanMergeNextInstructions_result[OF w(1), of cpu_env 2]
      CanMergeNextInstructions_result[OF w(2), of cpu_env 1]
      CanMergeNextInstructions_result[OF w(1), of cpu_env 3]
      CanMergeNextInstructions_result[OF w(1), of "cpu_env\<lparr>IsStepping := True\<rparr>" 1]
    by (simp add: two window_JitBase_def fresh_JitBase_def cpu_env_def plain_op_def
        IsAddressBreakPoint_def)
qed

subsection \<open>C3: the accurate data cache forces fastmem off\<close>

text \<open>
  Claim C3. When \<^verbatim>\<open>RefreshConfig\<close> runs with the accurate data cache configured, the
  snapshot it leaves has fastmem and the low-DCBZ hack off, and
  \<^verbatim>\<open>UpdateMemoryAndExceptionOptions\<close> on that snapshot leaves fastmem generation off,
  whatever the rest of the configuration, the object before, and the watchpoints, MSR
  and MMU mode at either call.
\<close>

theorem accurate_cache_forces_fastmem_off:
  "MAIN_ACCURATE_CPU_CACHE (config e) \<Longrightarrow>
   \<not> m_fastmem_enabled (RefreshConfig e s) \<and>
   \<not> m_low_dcbz_hack (RefreshConfig e s) \<and>
   \<not> fastmem (jo (UpdateMemoryAndExceptionOptions e' (RefreshConfig e s)))"
  by (simp add: RefreshConfig_def UpdateMemoryAndExceptionOptions_def Let_def)

theorem accurate_cache_forces_fastmem_off_witness:
  "MAIN_ACCURATE_CPU_CACHE (config accurate_env) \<and>
   MAIN_FASTMEM (config accurate_env) \<and> MAIN_LOW_DCBZ_HACK (config accurate_env) \<and>
   \<not> m_fastmem_enabled (RefreshConfig accurate_env fastmem_JitBase) \<and>
   \<not> m_low_dcbz_hack (RefreshConfig accurate_env fastmem_JitBase) \<and>
   \<not> fastmem (jo (UpdateMemoryAndExceptionOptions cpu_env
                   (RefreshConfig accurate_env fastmem_JitBase)))"
proof -
  have h: "MAIN_ACCURATE_CPU_CACHE (config accurate_env)"
    by (simp add: accurate_env_def default_Config_def)
  show ?thesis
    using h accurate_cache_forces_fastmem_off[OF h, of fastmem_JitBase cpu_env]
    by (simp add: accurate_env_def default_Config_def)
qed

subsection \<open>C4: a handled stack fault\<close>

text \<open>
  Claim C4. When \<^verbatim>\<open>HandleStackFault\<close> is called with the BLR optimization armed, on
  the CPU thread, it returns true and does exactly this: it logs the warning, removes
  the protection of the guard region if one is held (and clears the guard pointer),
  sets the optimization flag to false, invalidates the whole instruction cache range,
  forces an exception check with a countdown of 0, and sets the cleanup-pending flag;
  every other field is unchanged. The flag then stays false through the session.
\<close>

theorem HandleStackFault_handled:
  assumes "m_enable_blr_optimization s" and "IsCPUThread e"
  shows "HandleStackFault b e s =
     (True,
      s\<lparr>m_enable_blr_optimization := False,
        m_cleanup_after_stackfault := True,
        m_stack_guard := (if is_WIN32 b then m_stack_guard s else 0),
        effects := effects s @ [WARN_LOG_BLR_cache_disabled] @
                   (if \<not> is_WIN32 b \<and> m_stack_guard s \<noteq> 0
                    then [UnWriteProtectMemory (m_stack_guard s) (GUARD_SIZE b)] else []) @
                   [InvalidateICache 0 0xffffffff True, ForceExceptionCheck 0]\<rparr>) \<and>
     (session cs \<longrightarrow>
        \<not> m_enable_blr_optimization (exec_calls b cs (snd (HandleStackFault b e s))))"
proof (intro conjI impI)
  show handled: "HandleStackFault b e s =
     (True,
      s\<lparr>m_enable_blr_optimization := False,
        m_cleanup_after_stackfault := True,
        m_stack_guard := (if is_WIN32 b then m_stack_guard s else 0),
        effects := effects s @ [WARN_LOG_BLR_cache_disabled] @
                   (if \<not> is_WIN32 b \<and> m_stack_guard s \<noteq> 0
                    then [UnWriteProtectMemory (m_stack_guard s) (GUARD_SIZE b)] else []) @
                   [InvalidateICache 0 0xffffffff True, ForceExceptionCheck 0]\<rparr>)"
    using assms by (rule HandleStackFault_handles)
  assume "session cs"
  moreover have "\<not> m_enable_blr_optimization (snd (HandleStackFault b e s))"
    unfolding handled by simp
  ultimately show "\<not> m_enable_blr_optimization (exec_calls b cs (snd (HandleStackFault b e s)))"
    by (rule exec_calls_disarmed)
qed

theorem HandleStackFault_handled_witness:
  "m_enable_blr_optimization guarded_JitBase \<and> IsCPUThread cpu_env \<and> session cleanup_twice \<and>
   HandleStackFault posix_build cpu_env guarded_JitBase =
     (True,
      guarded_JitBase\<lparr>m_enable_blr_optimization := False,
        m_cleanup_after_stackfault := True,
        m_stack_guard := 0,
        effects := [WARN_LOG_BLR_cache_disabled,
                    UnWriteProtectMemory 0x7F0000030000 0x10000,
                    InvalidateICache 0 0xffffffff True, ForceExceptionCheck 0]\<rparr>) \<and>
   \<not> m_enable_blr_optimization
       (exec_calls posix_build cleanup_twice
          (snd (HandleStackFault posix_build cpu_env guarded_JitBase)))"
proof -
  have h: "m_enable_blr_optimization guarded_JitBase" "IsCPUThread cpu_env"
    "session cleanup_twice"
    by (simp_all add: guarded_JitBase_def armed_JitBase_def fresh_JitBase_def cpu_env_def
        session_def cleanup_twice_def)
  have v: "effects guarded_JitBase = []" "m_stack_guard guarded_JitBase = 0x7F0000030000"
    "\<not> is_WIN32 posix_build" "GUARD_SIZE posix_build = 0x10000"
    by (simp_all add: guarded_JitBase_def armed_JitBase_def fresh_JitBase_def posix_build_def)
  note r = HandleStackFault_handled[OF h(1) h(2), of posix_build cleanup_twice]
  have one: "HandleStackFault posix_build cpu_env guarded_JitBase =
     (True,
      guarded_JitBase\<lparr>m_enable_blr_optimization := False,
        m_cleanup_after_stackfault := True,
        m_stack_guard := 0,
        effects := [WARN_LOG_BLR_cache_disabled,
                    UnWriteProtectMemory 0x7F0000030000 0x10000,
                    InvalidateICache 0 0xffffffff True, ForceExceptionCheck 0]\<rparr>)"
    using r v by simp
  have two: "\<not> m_enable_blr_optimization
       (exec_calls posix_build cleanup_twice
          (snd (HandleStackFault posix_build cpu_env guarded_JitBase)))"
    using r h(3) by blast
  show ?thesis
    using h one two by blast
qed

subsection \<open>C5: a declined stack fault, and the second fault\<close>

text \<open>
  Claim C5. \<^verbatim>\<open>HandleStackFault\<close> returns false and leaves the object and the
  surroundings as they are (no unprotect, no cache invalidation, no change of a field)
  whenever the BLR optimization is not armed or the caller is not the CPU thread. After
  a handled fault, at any later point of the session the optimization is still not
  armed, and a further fault delivery there, on whichever thread, returns false and
  changes nothing.
\<close>

theorem HandleStackFault_declined:
  "((\<not> m_enable_blr_optimization s \<or> \<not> IsCPUThread e) \<longrightarrow>
      HandleStackFault b e s = (False, s)) \<and>
   (m_enable_blr_optimization s \<and> IsCPUThread e \<and> session cs \<longrightarrow>
      \<not> m_enable_blr_optimization (exec_calls b cs (snd (HandleStackFault b e s))) \<and>
      HandleStackFault b e' (exec_calls b cs (snd (HandleStackFault b e s))) =
        (False, exec_calls b cs (snd (HandleStackFault b e s))))"
proof (intro conjI impI)
  assume "\<not> m_enable_blr_optimization s \<or> \<not> IsCPUThread e"
  then show "HandleStackFault b e s = (False, s)"
    by (rule HandleStackFault_declines)
next
  assume a: "m_enable_blr_optimization s \<and> IsCPUThread e \<and> session cs"
  then have "\<not> m_enable_blr_optimization (snd (HandleStackFault b e s))"
    by (simp add: HandleStackFault_handles)
  with a show off: "\<not> m_enable_blr_optimization (exec_calls b cs (snd (HandleStackFault b e s)))"
    by (simp add: exec_calls_disarmed)
  then show "HandleStackFault b e' (exec_calls b cs (snd (HandleStackFault b e s))) =
        (False, exec_calls b cs (snd (HandleStackFault b e s)))"
    by (simp add: HandleStackFault_declines)
qed

theorem HandleStackFault_declined_witness:
  "\<not> m_enable_blr_optimization fresh_JitBase \<and>
   HandleStackFault posix_build cpu_env fresh_JitBase = (False, fresh_JitBase) \<and>
   \<not> IsCPUThread (cpu_env\<lparr>IsCPUThread := False\<rparr>) \<and>
   HandleStackFault posix_build (cpu_env\<lparr>IsCPUThread := False\<rparr>) guarded_JitBase =
     (False, guarded_JitBase) \<and>
   m_enable_blr_optimization guarded_JitBase \<and> IsCPUThread cpu_env \<and> session [] \<and>
   HandleStackFault posix_build cpu_env
       (snd (HandleStackFault posix_build cpu_env guarded_JitBase)) =
     (False, snd (HandleStackFault posix_build cpu_env guarded_JitBase)) \<and>
   session cleanup_twice \<and>
   HandleStackFault posix_build cpu_env
       (exec_calls posix_build cleanup_twice
          (snd (HandleStackFault posix_build cpu_env guarded_JitBase))) =
     (False, exec_calls posix_build cleanup_twice
               (snd (HandleStackFault posix_build cpu_env guarded_JitBase)))"
proof -
  have h: "\<not> m_enable_blr_optimization fresh_JitBase"
    "\<not> IsCPUThread (cpu_env\<lparr>IsCPUThread := False\<rparr>)"
    "m_enable_blr_optimization guarded_JitBase" "IsCPUThread cpu_env"
    "session []" "session cleanup_twice"
    by (simp_all add: guarded_JitBase_def armed_JitBase_def fresh_JitBase_def cpu_env_def
        session_def cleanup_twice_def)
  from h
    HandleStackFault_declined[where s = fresh_JitBase and e = cpu_env and b = posix_build]
    HandleStackFault_declined[where s = guarded_JitBase and b = posix_build
      and e = "cpu_env\<lparr>IsCPUThread := False\<rparr>"]
    HandleStackFault_declined[where s = guarded_JitBase and e = cpu_env and b = posix_build
      and cs = "[]" and e' = cpu_env]
    HandleStackFault_declined[where s = guarded_JitBase and e = cpu_env and b = posix_build
      and cs = cleanup_twice and e' = cpu_env]
  show ?thesis by simp
qed

subsection \<open>C6: ShouldHandleFPExceptionForInstruction\<close>

text \<open>
  Claim C6. For every decoded instruction: with fp-exception generation set,
  \<^verbatim>\<open>ShouldHandleFPExceptionForInstruction\<close> returns whether the instruction is flagged
  float-exception-capable; otherwise, with div-by-zero generation set, whether it is
  flagged as a floating-point divide; otherwise false. In particular, after a refresh
  and an update of the options with divide fidelity off, an instruction flagged
  float-exception-capable and not as a divide yields true with float-exception fidelity
  on and false with it off.
\<close>

theorem ShouldHandleFPExceptionForInstruction_result:
  "(fp_exceptions (jo s) \<longrightarrow>
      ShouldHandleFPExceptionForInstruction b s opr = float_exception_capable b opr) \<and>
   (\<not> fp_exceptions (jo s) \<and> div_by_zero_exceptions (jo s) \<longrightarrow>
      ShouldHandleFPExceptionForInstruction b s opr = floating_point_divide b opr) \<and>
   (\<not> fp_exceptions (jo s) \<and> \<not> div_by_zero_exceptions (jo s) \<longrightarrow>
      \<not> ShouldHandleFPExceptionForInstruction b s opr) \<and>
   (float_exception_capable b opr \<and> \<not> floating_point_divide b opr \<and>
    \<not> MAIN_DIVIDE_BY_ZERO_EXCEPTIONS (config e) \<longrightarrow>
      ShouldHandleFPExceptionForInstruction b
        (UpdateMemoryAndExceptionOptions e' (RefreshConfig e s)) opr =
      MAIN_FLOAT_EXCEPTIONS (config e))"
  by (simp add: ShouldHandleFPExceptionForInstruction_def float_exception_capable_def
      floating_point_divide_def UpdateMemoryAndExceptionOptions_def RefreshConfig_def Let_def)

theorem ShouldHandleFPExceptionForInstruction_result_witness:
  "float_exception_capable posix_build float_op \<and>
   \<not> floating_point_divide posix_build float_op \<and>
   \<not> MAIN_DIVIDE_BY_ZERO_EXCEPTIONS (config float_env) \<and>
   MAIN_FLOAT_EXCEPTIONS (config float_env) \<and>
   ShouldHandleFPExceptionForInstruction posix_build
     (UpdateMemoryAndExceptionOptions cpu_env (RefreshConfig float_env fresh_JitBase)) float_op \<and>
   \<not> MAIN_DIVIDE_BY_ZERO_EXCEPTIONS (config cpu_env) \<and>
   \<not> MAIN_FLOAT_EXCEPTIONS (config cpu_env) \<and>
   \<not> ShouldHandleFPExceptionForInstruction posix_build
     (UpdateMemoryAndExceptionOptions cpu_env (RefreshConfig cpu_env fresh_JitBase)) float_op \<and>
   fp_exceptions (jo (fresh_JitBase\<lparr>jo := (jo fresh_JitBase)\<lparr>fp_exceptions := True\<rparr>\<rparr>)) \<and>
   ShouldHandleFPExceptionForInstruction posix_build
     (fresh_JitBase\<lparr>jo := (jo fresh_JitBase)\<lparr>fp_exceptions := True\<rparr>\<rparr>) float_op \<and>
   div_by_zero_exceptions
     (jo (fresh_JitBase\<lparr>jo := (jo fresh_JitBase)\<lparr>div_by_zero_exceptions := True\<rparr>\<rparr>)) \<and>
   \<not> ShouldHandleFPExceptionForInstruction posix_build
     (fresh_JitBase\<lparr>jo := (jo fresh_JitBase)\<lparr>div_by_zero_exceptions := True\<rparr>\<rparr>) float_op \<and>
   \<not> ShouldHandleFPExceptionForInstruction posix_build fresh_JitBase float_op"
proof -
  have h: "float_exception_capable posix_build float_op"
    "\<not> floating_point_divide posix_build float_op"
    "\<not> MAIN_DIVIDE_BY_ZERO_EXCEPTIONS (config float_env)"
    "MAIN_FLOAT_EXCEPTIONS (config float_env)"
    "\<not> MAIN_DIVIDE_BY_ZERO_EXCEPTIONS (config cpu_env)"
    "\<not> MAIN_FLOAT_EXCEPTIONS (config cpu_env)"
    by (simp_all add: float_exception_capable_def floating_point_divide_def posix_build_def
        float_op_def float_env_def cpu_env_def default_Config_def)
  have j: "\<not> fp_exceptions (jo fresh_JitBase)" "\<not> div_by_zero_exceptions (jo fresh_JitBase)"
    by (simp_all add: fresh_JitBase_def)
  from h j
    ShouldHandleFPExceptionForInstruction_result
      [of fresh_JitBase posix_build float_op float_env cpu_env]
    ShouldHandleFPExceptionForInstruction_result
      [of fresh_JitBase posix_build float_op cpu_env cpu_env]
    ShouldHandleFPExceptionForInstruction_result
      [of "fresh_JitBase\<lparr>jo := (jo fresh_JitBase)\<lparr>fp_exceptions := True\<rparr>\<rparr>"
          posix_build float_op cpu_env cpu_env]
    ShouldHandleFPExceptionForInstruction_result
      [of "fresh_JitBase\<lparr>jo := (jo fresh_JitBase)\<lparr>div_by_zero_exceptions := True\<rparr>\<rparr>"
          posix_build float_op cpu_env cpu_env]
  show ?thesis by simp
qed

subsection \<open>C7: the integrity checks of ProtectStack\<close>

text \<open>
  As stated, C7 counts a remaining stack that does not exceed the guard size plus the
  least unsafe stack size as a failed check. The source refuses a remaining stack that
  is less than that sum, and accepts one equal to it: at that stack position
  \<^verbatim>\<open>ProtectStack\<close> reports nothing, leaves the optimization armed and
  protects the guard region.
\<close>

theorem margin_not_exceeded_counterexample:
  "m_enable_blr_optimization armed_JitBase \<and> \<not> is_WIN32 posix_build \<and>
   margin_not_exceeded posix_build edge_env \<and>
   m_enable_blr_optimization (ProtectStack posix_build edge_env armed_JitBase) \<and>
   ProtectStack posix_build edge_env armed_JitBase =
     armed_JitBase\<lparr>m_stack_guard := 0x7F0000030000,
                    effects := [ReadProtectMemory 0x7F0000030000 0x10000]\<rparr>"
  by (simp add: margin_not_exceeded_def remaining_stack_def required_margin_def
      stack_guard_addr_def ProtectStack_def Let_def emit_def
      posix_build_def edge_env_def cpu_env_def round_up_def armed_JitBase_def fresh_JitBase_def)

text \<open>
  Claim C7, amended. In a build with page protection (not \<^verbatim>\<open>_WIN32\<close>), when
  \<^verbatim>\<open>ProtectStack\<close> runs with the optimization armed and an integrity check fails (the
  stack position lies outside the reported stack bounds, or the page size is not
  positive, or the remaining stack between the guard address and the stack position is
  less than the guard size plus the least unsafe stack size), it reports exactly one
  fatal alert, sets the optimization flag to false, and returns without protecting a
  guard region: no other field and no other effect changes. The optimization is then
  permanently disabled: the flag stays false through the session.
\<close>

theorem ProtectStack_integrity_failure:
  assumes armed: "m_enable_blr_optimization s"
    and posix: "\<not> is_WIN32 b"
    and fails: "middle_outside_stack_bounds e \<or> page_size_invalid e \<or> margin_not_reached b e"
  shows "(\<exists>a. ProtectStack b e s =
               s\<lparr>m_enable_blr_optimization := False,
                 effects := effects s @ [PanicAlertFmt a]\<rparr>) \<and>
         (session cs \<longrightarrow> \<not> m_enable_blr_optimization (exec_calls b cs (ProtectStack b e s)))"
proof -
  let ?A = "stack_middle_addr e < stack_addr e \<or>
            stack_middle_addr e \<ge> stack_addr e + stack_size e"
  let ?B = "sint (sysconf_PAGESIZE e) \<le> 0"
  let ?C = "stack_guard_addr b e \<ge> stack_middle_addr e \<or>
            stack_middle_addr e - stack_guard_addr b e < GUARD_SIZE b + MIN_UNSAFE_STACK_SIZE b"
  have some: "?A \<or> ?B \<or> ?C"
    using fails outside_bounds_detected[of e] margin_not_reached_detected[of b e]
    by (auto simp: page_size_invalid_def)
  have now: "\<exists>a. ProtectStack b e s =
               s\<lparr>m_enable_blr_optimization := False,
                 effects := effects s @ [PanicAlertFmt a]\<rparr>"
  proof (cases ?A)
    case True
    then have "ProtectStack b e s =
      s\<lparr>m_enable_blr_optimization := False,
        effects := effects s @ [PanicAlertFmt Failed_to_get_correct_stack_base]\<rparr>"
      using armed posix by (simp add: ProtectStack_def Let_def emit_def)
    then show ?thesis by blast
  next
    case notA: False
    show ?thesis
    proof (cases ?B)
      case True
      then have "ProtectStack b e s =
        s\<lparr>m_enable_blr_optimization := False,
          effects := effects s @ [PanicAlertFmt Failed_to_get_page_size]\<rparr>"
        using armed posix notA by (simp add: ProtectStack_def Let_def emit_def)
      then show ?thesis by blast
    next
      case notB: False
      with notA some have ?C by blast
      then have "ProtectStack b e s =
        s\<lparr>m_enable_blr_optimization := False,
          effects := effects s @ [PanicAlertFmt (Stack_is_too_small (stack_size e)
                       (stack_addr e) (stack_middle_addr e) (sysconf_PAGESIZE e))]\<rparr>"
        using armed posix notA notB
        by (simp add: ProtectStack_def Let_def emit_def stack_guard_addr_def)
      then show ?thesis by blast
    qed
  qed
  then obtain a where "ProtectStack b e s =
      s\<lparr>m_enable_blr_optimization := False, effects := effects s @ [PanicAlertFmt a]\<rparr>"
    by blast
  then have off: "\<not> m_enable_blr_optimization (ProtectStack b e s)"
    by simp
  have "session cs \<longrightarrow> \<not> m_enable_blr_optimization (exec_calls b cs (ProtectStack b e s))"
    using off by (simp add: exec_calls_disarmed)
  with now show ?thesis by blast
qed

theorem ProtectStack_integrity_failure_witness:
  "m_enable_blr_optimization armed_JitBase \<and> \<not> is_WIN32 posix_build \<and>
   session cleanup_twice \<and>
   margin_not_reached posix_build short_env \<and>
   (\<exists>a. ProtectStack posix_build short_env armed_JitBase =
         armed_JitBase\<lparr>m_enable_blr_optimization := False, effects := [PanicAlertFmt a]\<rparr>) \<and>
   \<not> m_enable_blr_optimization
       (exec_calls posix_build cleanup_twice (ProtectStack posix_build short_env armed_JitBase)) \<and>
   page_size_invalid (cpu_env\<lparr>sysconf_PAGESIZE := - 1\<rparr>) \<and>
   (\<exists>a. ProtectStack posix_build (cpu_env\<lparr>sysconf_PAGESIZE := - 1\<rparr>) armed_JitBase =
         armed_JitBase\<lparr>m_enable_blr_optimization := False, effects := [PanicAlertFmt a]\<rparr>) \<and>
   \<not> m_enable_blr_optimization
       (exec_calls posix_build cleanup_twice
          (ProtectStack posix_build (cpu_env\<lparr>sysconf_PAGESIZE := - 1\<rparr>) armed_JitBase)) \<and>
   middle_outside_stack_bounds (cpu_env\<lparr>stack_middle_addr := 0x7F0000800000\<rparr>) \<and>
   (\<exists>a. ProtectStack posix_build (cpu_env\<lparr>stack_middle_addr := 0x7F0000800000\<rparr>) armed_JitBase =
         armed_JitBase\<lparr>m_enable_blr_optimization := False, effects := [PanicAlertFmt a]\<rparr>) \<and>
   \<not> m_enable_blr_optimization
       (exec_calls posix_build cleanup_twice
          (ProtectStack posix_build (cpu_env\<lparr>stack_middle_addr := 0x7F0000800000\<rparr>)
             armed_JitBase))"
proof -
  have h: "m_enable_blr_optimization armed_JitBase" "\<not> is_WIN32 posix_build"
    by (simp_all add: posix_build_def armed_JitBase_def fresh_JitBase_def)
  have ss: "session cleanup_twice"
    by (simp add: session_def cleanup_twice_def)
  have c: "margin_not_reached posix_build short_env"
    by (simp add: margin_not_reached_def remaining_stack_def required_margin_def
      stack_guard_addr_def posix_build_def short_env_def cpu_env_def round_up_def)
  have p: "page_size_invalid (cpu_env\<lparr>sysconf_PAGESIZE := - 1\<rparr>)"
    by (simp add: page_size_invalid_def)
  have a: "middle_outside_stack_bounds (cpu_env\<lparr>stack_middle_addr := 0x7F0000800000\<rparr>)"
    by (simp add: middle_outside_stack_bounds_def cpu_env_def)
  have e: "effects armed_JitBase = []"
    by (simp add: armed_JitBase_def fresh_JitBase_def)
  note r1 = ProtectStack_integrity_failure[OF h(1) h(2), of short_env cleanup_twice]
  note r2 = ProtectStack_integrity_failure[OF h(1) h(2),
        of "cpu_env\<lparr>sysconf_PAGESIZE := - 1\<rparr>" cleanup_twice]
  note r3 = ProtectStack_integrity_failure[OF h(1) h(2),
        of "cpu_env\<lparr>stack_middle_addr := 0x7F0000800000\<rparr>" cleanup_twice]
  have k1: "\<exists>a. ProtectStack posix_build short_env armed_JitBase =
         armed_JitBase\<lparr>m_enable_blr_optimization := False, effects := [PanicAlertFmt a]\<rparr>"
    using r1 c e by simp
  have k2: "\<exists>a. ProtectStack posix_build (cpu_env\<lparr>sysconf_PAGESIZE := - 1\<rparr>) armed_JitBase =
         armed_JitBase\<lparr>m_enable_blr_optimization := False, effects := [PanicAlertFmt a]\<rparr>"
    using r2 p e by simp
  have k3: "\<exists>a. ProtectStack posix_build (cpu_env\<lparr>stack_middle_addr := 0x7F0000800000\<rparr>)
                  armed_JitBase =
         armed_JitBase\<lparr>m_enable_blr_optimization := False, effects := [PanicAlertFmt a]\<rparr>"
    using r3 a e by simp
  show ?thesis
    using h ss c p a k1 k2 k3 r1 r2 r3 by blast
qed

subsection \<open>C8: UnprotectStack is idempotent\<close>

text \<open>
  Claim C8. For every object, calling \<^verbatim>\<open>UnprotectStack\<close> twice in a row leaves the
  same object and the same effects as calling it once: the second call changes no
  memory protection, because (in a build with page protection) the first call has
  cleared the guard pointer.
\<close>

theorem UnprotectStack_idempotent:
  "UnprotectStack b (UnprotectStack b s) = UnprotectStack b s \<and>
   effects (UnprotectStack b (UnprotectStack b s)) = effects (UnprotectStack b s) \<and>
   (\<not> is_WIN32 b \<longrightarrow> m_stack_guard (UnprotectStack b s) = 0)"
  by (simp add: UnprotectStack_def emit_def)

theorem UnprotectStack_idempotent_witness:
  "\<not> is_WIN32 posix_build \<and>
   UnprotectStack posix_build (UnprotectStack posix_build guarded_JitBase) =
     UnprotectStack posix_build guarded_JitBase \<and>
   effects (UnprotectStack posix_build (UnprotectStack posix_build guarded_JitBase)) =
     effects (UnprotectStack posix_build guarded_JitBase) \<and>
   m_stack_guard (UnprotectStack posix_build guarded_JitBase) = 0"
proof -
  have h: "\<not> is_WIN32 posix_build"
    by (simp add: posix_build_def)
  from h UnprotectStack_idempotent[of posix_build guarded_JitBase]
  show ?thesis by simp
qed

subsection \<open>C9: no BLR optimization with the accurate data cache\<close>

text \<open>
  Claim C9. If the most recent \<^verbatim>\<open>RefreshConfig\<close> ran with the accurate data cache
  configured, then \<^verbatim>\<open>InitBLROptimization\<close>, called after it (with any calls but a
  refresh in between), leaves the optimization flag false, whatever the block-linking,
  fastmem and debugging settings; \<^verbatim>\<open>ProtectStack\<close> then changes nothing: it arms
  no guard region.
\<close>

theorem accurate_cache_disables_blr_optimization:
  "MAIN_ACCURATE_CPU_CACHE (config e) \<Longrightarrow> no_refresh cs \<Longrightarrow>
   \<not> m_enable_blr_optimization (InitBLROptimization (exec_calls b cs (RefreshConfig e s))) \<and>
   ProtectStack b e' (InitBLROptimization (exec_calls b cs (RefreshConfig e s))) =
     InitBLROptimization (exec_calls b cs (RefreshConfig e s))"
proof -
  assume acc: "MAIN_ACCURATE_CPU_CACHE (config e)" and nr: "no_refresh cs"
  have "\<not> m_fastmem_enabled (RefreshConfig e s)"
    using acc by (simp add: RefreshConfig_def Let_def)
  then have "\<not> m_fastmem_enabled (exec_calls b cs (RefreshConfig e s))"
    using nr by (simp add: exec_calls_fastmem_enabled)
  then have off: "\<not> m_enable_blr_optimization
                     (InitBLROptimization (exec_calls b cs (RefreshConfig e s)))"
    by (simp add: InitBLROptimization_def)
  then show ?thesis
    by (simp add: ProtectStack_disarmed)
qed

theorem accurate_cache_disables_blr_optimization_witness:
  "MAIN_ACCURATE_CPU_CACHE (config accurate_env) \<and> no_refresh update_only \<and>
   MAIN_FASTMEM (config accurate_env) \<and> \<not> MAIN_ENABLE_DEBUGGING (config accurate_env) \<and>
   enableBlocklink (jo armed_JitBase) \<and>
   \<not> m_enable_blr_optimization
       (InitBLROptimization
          (exec_calls posix_build update_only (RefreshConfig accurate_env armed_JitBase))) \<and>
   ProtectStack posix_build cpu_env
       (InitBLROptimization
          (exec_calls posix_build update_only (RefreshConfig accurate_env armed_JitBase))) =
     InitBLROptimization
       (exec_calls posix_build update_only (RefreshConfig accurate_env armed_JitBase))"
proof -
  have h: "MAIN_ACCURATE_CPU_CACHE (config accurate_env)" "no_refresh update_only"
    by (simp_all add: accurate_env_def default_Config_def no_refresh_def update_only_def)
  have v: "MAIN_FASTMEM (config accurate_env)" "\<not> MAIN_ENABLE_DEBUGGING (config accurate_env)"
    "enableBlocklink (jo armed_JitBase)"
    by (simp_all add: accurate_env_def default_Config_def armed_JitBase_def fresh_JitBase_def)
  from h v
    accurate_cache_disables_blr_optimization[OF h, of posix_build armed_JitBase cpu_env]
  show ?thesis by simp
qed

subsection \<open>C10: CleanUpAfterStackFault runs once\<close>

text \<open>
  Claim C10. \<^verbatim>\<open>CleanUpAfterStackFault\<close> changes nothing when the cleanup-pending flag
  is false; the flag is false after every call; so calling it twice in a row equals
  calling it once. After a handled stack fault, a run of the session clears the cache
  exactly once if it calls \<^verbatim>\<open>CleanUpAfterStackFault\<close> at all, however often, and
  not at all otherwise.
\<close>

theorem CleanUpAfterStackFault_once:
  "(\<not> m_cleanup_after_stackfault s \<longrightarrow> CleanUpAfterStackFault b s = s) \<and>
   \<not> m_cleanup_after_stackfault (CleanUpAfterStackFault b s) \<and>
   CleanUpAfterStackFault b (CleanUpAfterStackFault b s) = CleanUpAfterStackFault b s \<and>
   (m_enable_blr_optimization s \<and> IsCPUThread e \<and> session cs \<longrightarrow>
      cache_clears (exec_calls b cs (snd (HandleStackFault b e s))) =
        cache_clears s +
        (if \<exists>c \<in> set cs. fst c = Call_CleanUpAfterStackFault then 1 else 0))"
proof (intro conjI impI)
  show "\<not> m_cleanup_after_stackfault (CleanUpAfterStackFault b s)"
    by (simp add: CleanUpAfterStackFault_def ClearCache_def emit_def Let_def)
  then show "CleanUpAfterStackFault b (CleanUpAfterStackFault b s) = CleanUpAfterStackFault b s"
    by (subst CleanUpAfterStackFault_def) simp
next
  assume "\<not> m_cleanup_after_stackfault s"
  then show "CleanUpAfterStackFault b s = s"
    by (simp add: CleanUpAfterStackFault_def)
next
  assume a: "m_enable_blr_optimization s \<and> IsCPUThread e \<and> session cs"
  let ?s1 = "snd (HandleStackFault b e s)"
  have s1: "\<not> m_enable_blr_optimization ?s1" "m_cleanup_after_stackfault ?s1"
    "cache_clears ?s1 = cache_clears s"
    using a by (simp_all add: HandleStackFault_handles cache_clears_def)
  from a have "session cs" by simp
  from exec_calls_cache_clears[OF this s1(1), of b] s1
  show "cache_clears (exec_calls b cs ?s1) =
        cache_clears s + (if \<exists>c \<in> set cs. fst c = Call_CleanUpAfterStackFault then 1 else 0)"
    by simp
qed

theorem CleanUpAfterStackFault_once_witness:
  "\<not> m_cleanup_after_stackfault guarded_JitBase \<and>
   CleanUpAfterStackFault posix_build guarded_JitBase = guarded_JitBase \<and>
   m_enable_blr_optimization guarded_JitBase \<and> IsCPUThread cpu_env \<and> session cleanup_twice \<and>
   cache_clears guarded_JitBase = 0 \<and>
   cache_clears (exec_calls posix_build cleanup_twice
                   (snd (HandleStackFault posix_build cpu_env guarded_JitBase))) = 1"
proof -
  have h: "\<not> m_cleanup_after_stackfault guarded_JitBase"
    "m_enable_blr_optimization guarded_JitBase" "IsCPUThread cpu_env" "session cleanup_twice"
    "cache_clears guarded_JitBase = 0"
    by (simp_all add: guarded_JitBase_def armed_JitBase_def fresh_JitBase_def cpu_env_def
        session_def cleanup_twice_def cache_clears_def)
  have c: "\<exists>c \<in> set cleanup_twice. fst c = Call_CleanUpAfterStackFault"
    by (simp add: cleanup_twice_def)
  from h c
    CleanUpAfterStackFault_once[of guarded_JitBase posix_build cpu_env cleanup_twice]
  show ?thesis by simp
qed

end
